theory Spec2Isabelle
  imports Main "HOL-Library.Option_ord" "HOL-Library.Multiset"
begin

section \<open>TaskMaster API: a shallow embedding of server.js\<close>

text \<open>
  The server is an Express application over a Mongoose model \<open>Task\<close>. The embedding follows
  server.js from the request-counting middleware (line 20) to the final 404 handler
  (line 119): a request is what Express hands to that middleware, after \<open>helmet()\<close>,
  \<open>cors()\<close> and \<open>express.json()\<close> have passed it on, so \<open>req.body\<close> is the parsed
  JSON object. The two counters, \<open>startTime\<close> and the database form the state, which every
  handler takes and returns. What a handler reads from the process or the runtime
  (\<open>Date.now()\<close>, \<open>process.env\<close>, \<open>process.memoryUsage()\<close>, the ObjectId the driver
  generates for an insert, the runtime's date parser) is the record \<open>env\<close>.
\<close>

subsection \<open>JSON values of a request body\<close>

text \<open>
  Numbers are modelled at integer values in the safe range, where \<open>String(n)\<close> is the
  decimal numeral. An object is the list of its members in insertion order; a member is
  read with \<open>jget\<close>, and a missing member is \<open>None\<close> (JavaScript's \<open>undefined\<close>).
\<close>

datatype json =
    JNull
  | JBool bool
  | JNum int
  | JStr string
  | JArr "json list"
  | JObj "(string \<times> json) list"

type_synonym jobject = "(string \<times> json) list"

definition jget :: "jobject \<Rightarrow> string \<Rightarrow> json option" where
  "jget obj k = map_of obj k"

text \<open>JavaScript truthiness, as \<open>!req.body.title\<close> tests it.\<close>

fun truthy :: "json option \<Rightarrow> bool" where
  "truthy None = False"
| "truthy (Some JNull) = False"
| "truthy (Some (JBool b)) = b"
| "truthy (Some (JNum n)) = (n \<noteq> 0)"
| "truthy (Some (JStr s)) = (s \<noteq> [])"
| "truthy (Some (JArr xs)) = True"
| "truthy (Some (JObj kvs)) = True"

subsection \<open>Decimal text of numbers\<close>

definition digit :: "nat \<Rightarrow> char" where
  "digit d = ''0123456789'' ! (d mod 10)"

function show_nat :: "nat \<Rightarrow> string" where
  "show_nat n = (if n < 10 then [digit n] else show_nat (n div 10) @ [digit (n mod 10)])"
  by pat_completeness auto
termination
  by (relation "measure (\<lambda>n. n)") auto

declare show_nat.simps [simp del]

definition show_int :: "int \<Rightarrow> string" where
  "show_int i = (if i < 0 then CHR ''-'' # show_nat (nat (- i)) else show_nat (nat i))"

text \<open>
  \<open>show_millis d\<close> is the text JavaScript prints for the number \<open>d / 1000\<close> when \<open>d\<close>
  is an integer count of milliseconds: the integer part, then at most three decimals
  with the trailing zeros dropped.
\<close>

definition frac3 :: "nat \<Rightarrow> string" where
  "frac3 m =
     (let ds = [digit (m div 100), digit (m div 10), digit m];
          kept = rev (dropWhile (\<lambda>c. c = CHR ''0'') (rev ds))
      in if kept = [] then [] else CHR ''.'' # kept)"

definition show_millis :: "int \<Rightarrow> string" where
  "show_millis d =
     (let n = nat \<bar>d\<bar>;
          txt = show_nat (n div 1000) @ frac3 (n mod 1000)
      in if d < 0 then CHR ''-'' # txt else txt)"

subsection \<open>The Task schema (server.js, lines 26-30)\<close>

text \<open>
  A stored document. \<open>_id\<close> is an ObjectId, written as its 24 lower-case hexadecimal
  digits. The three schema paths can hold \<open>null\<close> (\<open>None\<close>): the schema's \<open>required\<close>
  and its defaults act when a document is created, not when one is updated. Dates are
  milliseconds since the epoch. \<open>version\<close> is Mongoose's \<open>__v\<close>.
\<close>

type_synonym oid = string

record task =
  tid :: oid
  title :: "string option"
  completed :: "bool option"
  createdAt :: "int option"
  version :: int

datatype error =
    CastError string
  | ValidationError string
  | StorageError
  | DuplicateKey
  | OutsideModel

text \<open>
  \<open>CastError p\<close> and \<open>ValidationError p\<close> name the path that failed. \<open>StorageError\<close> is
  any failure of the driver to complete an operation, \<open>DuplicateKey\<close> the server's
  refusal of a second document with the same \<open>_id\<close>. \<open>OutsideModel\<close> marks an update
  document that this embedding does not interpret (see \<open>castUpdate\<close>): what the server
  does with such a patch on a well-formed id is not modelled, and the theorem on
  updates assumes a body that \<open>castUpdate\<close> interprets.
\<close>

record db =
  readyState :: nat
  docs :: "task list"

record env =
  now :: int
  genId :: oid
  heapUsed :: nat
  jsDate :: "json \<Rightarrow> int option"
  APP_VERSION :: "string option"
  HOSTNAME :: "string option"
  NODE_ENV :: "string option"

record state =
  requestCount :: nat
  errorCount :: nat
  startTime :: int
  mongo :: db

subsection \<open>Mongoose casting\<close>

text \<open>
  \<open>trim: true\<close> is a setter that applies \<open>String.prototype.trim\<close>. The white space
  modelled is the ASCII part of what \<open>trim\<close> removes: tab, line feed, vertical tab, form
  feed, carriage return and space.
\<close>

definition is_ws :: "char \<Rightarrow> bool" where
  "is_ws c = (c \<in> set [CHR 0x09, CHR 0x0A, CHR 0x0B, CHR 0x0C, CHR 0x0D, CHR '' ''])"

definition trim :: "string \<Rightarrow> string" where
  "trim s = rev (dropWhile is_ws (rev (dropWhile is_ws s)))"

text \<open>
  The String cast: \<open>null\<close> stays \<open>null\<close>; a value with its own \<open>toString\<close> (string,
  number, boolean) becomes that text; an object with a string \<open>_id\<close> becomes the
  \<open>_id\<close>; an array or any other object is a cast error. The path's setter then trims.
\<close>

fun castString :: "string \<Rightarrow> json \<Rightarrow> error + string option" where
  "castString p JNull = Inr None"
| "castString p (JBool b) = Inr (Some (if b then ''true'' else ''false''))"
| "castString p (JNum n) = Inr (Some (show_int n))"
| "castString p (JStr s) = Inr (Some s)"
| "castString p (JArr xs) = Inl (CastError p)"
| "castString p (JObj kvs) =
     (case map_of kvs ''_id'' of
        Some (JStr i) \<Rightarrow> if i = [] then Inl (CastError p) else Inr (Some i)
      | _ \<Rightarrow> Inl (CastError p))"

definition castTitle :: "json \<Rightarrow> error + string option" where
  "castTitle v =
     (case castString ''title'' v of
        Inl e \<Rightarrow> Inl e
      | Inr None \<Rightarrow> Inr None
      | Inr (Some s) \<Rightarrow> Inr (Some (trim s)))"

text \<open>
  The Boolean cast accepts \<open>true\<close>, \<open>'true'\<close>, \<open>1\<close>, \<open>'1'\<close>, \<open>'yes'\<close> and \<open>false\<close>,
  \<open>'false'\<close>, \<open>0\<close>, \<open>'0'\<close>, \<open>'no'\<close>; \<open>null\<close> stays \<open>null\<close>; anything else is a cast
  error.
\<close>

fun castBoolean :: "string \<Rightarrow> json \<Rightarrow> error + bool option" where
  "castBoolean p JNull = Inr None"
| "castBoolean p (JBool b) = Inr (Some b)"
| "castBoolean p (JNum n) =
     (if n = 1 then Inr (Some True) else if n = 0 then Inr (Some False) else Inl (CastError p))"
| "castBoolean p (JStr s) =
     (if s \<in> set [''true'', ''1'', ''yes''] then Inr (Some True)
      else if s \<in> set [''false'', ''0'', ''no''] then Inr (Some False)
      else Inl (CastError p))"
| "castBoolean p (JArr xs) = Inl (CastError p)"
| "castBoolean p (JObj kvs) = Inl (CastError p)"

text \<open>
  The Date cast: \<open>null\<close> and the empty string give \<open>null\<close>; a boolean is a cast error; a
  number is that many milliseconds, valid within 8.64e15 of the epoch; every other value
  goes through the runtime's \<open>Date\<close> constructor, \<open>jsDate\<close>, whose \<open>None\<close> is an
  invalid date and so a cast error.
\<close>

fun castDate :: "env \<Rightarrow> string \<Rightarrow> json \<Rightarrow> error + int option" where
  "castDate e p JNull = Inr None"
| "castDate e p (JBool b) = Inl (CastError p)"
| "castDate e p (JNum n) =
     (if \<bar>n\<bar> \<le> 8640000000000000 then Inr (Some n) else Inl (CastError p))"
| "castDate e p v =
     (if v = JStr [] then Inr None
      else case jsDate e v of None \<Rightarrow> Inl (CastError p) | Some ms \<Rightarrow> Inr (Some ms))"

text \<open>The ObjectId cast of a route parameter: exactly 24 hexadecimal digits.\<close>

definition is_hex :: "char \<Rightarrow> bool" where
  "is_hex c = (c \<in> set ''0123456789abcdefABCDEF'')"

definition lower_hex :: "char \<Rightarrow> char" where
  "lower_hex c =
     (if c = CHR ''A'' then CHR ''a'' else if c = CHR ''B'' then CHR ''b''
      else if c = CHR ''C'' then CHR ''c'' else if c = CHR ''D'' then CHR ''d''
      else if c = CHR ''E'' then CHR ''e'' else if c = CHR ''F'' then CHR ''f''
      else c)"

definition castObjectId :: "string \<Rightarrow> oid option" where
  "castObjectId s =
     (if length s = 24 \<and> list_all is_hex s then Some (map lower_hex s) else None)"

subsection \<open>The update document of a PUT\<close>

text \<open>
  \<open>findByIdAndUpdate(id, req.body, {new: true})\<close> casts the body into a \<open>$set\<close> of
  schema paths, key by key in the body's order: a value for \<open>title\<close>, \<open>completed\<close> or
  \<open>createdAt\<close> is cast by its schema type (the first failure is the error raised), and a
  key that is no schema path is dropped (strict mode). No validator runs: the call
  passes no \<open>runValidators\<close>. A field of \<open>update\<close> is \<open>None\<close> for a path the body does
  not set. Update operators (keys starting with \<open>$\<close>), dotted keys, \<open>_id\<close> and \<open>__v\<close>
  are not interpreted: their result is \<open>OutsideModel\<close>.
\<close>

record update =
  set_title :: "string option option"
  set_completed :: "bool option option"
  set_createdAt :: "int option option"

definition no_update :: update where
  "no_update = \<lparr>set_title = None, set_completed = None, set_createdAt = None\<rparr>"

definition uninterpreted_key :: "string \<Rightarrow> bool" where
  "uninterpreted_key k =
     (k = ''_id'' \<or> k = ''__v'' \<or> CHR ''.'' \<in> set k \<or> (k \<noteq> [] \<and> hd k = CHR ''$''))"

fun castUpdate :: "env \<Rightarrow> jobject \<Rightarrow> error + update" where
  "castUpdate e [] = Inr no_update"
| "castUpdate e ((k, v) # kvs) =
     (if uninterpreted_key k then Inl OutsideModel
      else if k = ''title'' then
        (case castTitle v of
           Inl err \<Rightarrow> Inl err
         | Inr x \<Rightarrow> (case castUpdate e kvs of
                       Inl err \<Rightarrow> Inl err
                     | Inr u \<Rightarrow> Inr (u\<lparr>set_title := Some x\<rparr>)))
      else if k = ''completed'' then
        (case castBoolean ''completed'' v of
           Inl err \<Rightarrow> Inl err
         | Inr x \<Rightarrow> (case castUpdate e kvs of
                       Inl err \<Rightarrow> Inl err
                     | Inr u \<Rightarrow> Inr (u\<lparr>set_completed := Some x\<rparr>)))
      else if k = ''createdAt'' then
        (case castDate e ''createdAt'' v of
           Inl err \<Rightarrow> Inl err
         | Inr x \<Rightarrow> (case castUpdate e kvs of
                       Inl err \<Rightarrow> Inl err
                     | Inr u \<Rightarrow> Inr (u\<lparr>set_createdAt := Some x\<rparr>)))
      else castUpdate e kvs)"

definition applyUpdate :: "update \<Rightarrow> task \<Rightarrow> task" where
  "applyUpdate u t =
     t\<lparr>title := (case set_title u of None \<Rightarrow> title t | Some x \<Rightarrow> x),
       completed := (case set_completed u of None \<Rightarrow> completed t | Some x \<Rightarrow> x),
       createdAt := (case set_createdAt u of None \<Rightarrow> createdAt t | Some x \<Rightarrow> x)\<rparr>"


subsection \<open>The Task model's operations\<close>

text \<open>
  The collection is the list of its documents in insertion order. An operation that
  reaches the database while the connection is not ready (\<open>readyState\<close> other than 1)
  fails with \<open>StorageError\<close>: Mongoose buffers it and rejects it when the buffer times
  out. Casting and validation happen in the process, before the database is reached.
\<close>

definition find_doc :: "oid \<Rightarrow> task list \<Rightarrow> task option" where
  "find_doc i ts = List.find (\<lambda>t. tid t = i) ts"

fun replace_doc :: "oid \<Rightarrow> task \<Rightarrow> task list \<Rightarrow> task list" where
  "replace_doc i t' [] = []"
| "replace_doc i t' (t # ts) = (if tid t = i then t' # ts else t # replace_doc i t' ts)"

fun remove_doc :: "oid \<Rightarrow> task list \<Rightarrow> task list" where
  "remove_doc i [] = []"
| "remove_doc i (t # ts) = (if tid t = i then ts else t # remove_doc i ts)"

text \<open>
  \<open>Task.find().sort({createdAt: -1})\<close>: every document, latest \<open>createdAt\<close> first; a
  \<open>null\<close> date sorts below every date. The order among equal dates is the database's
  choice; the model takes one.
\<close>

definition Task_find_sorted :: "db \<Rightarrow> error + task list" where
  "Task_find_sorted d =
     (if readyState d = 1 then Inr (rev (sort_key createdAt (docs d))) else Inl StorageError)"

text \<open>
  \<open>Task.create({title: v})\<close>: the title is cast and trimmed, the defaults are filled in,
  \<open>required\<close> rejects a missing, \<open>null\<close> or empty title (a cast failure is reported as a
  validation failure too), and the document is inserted under the generated \<open>_id\<close>.
\<close>

definition Task_create :: "env \<Rightarrow> db \<Rightarrow> json option \<Rightarrow> error + (db \<times> task)" where
  "Task_create e d v =
     (case (case v of None \<Rightarrow> Inr None | Some j \<Rightarrow> castTitle j) of
        Inl err \<Rightarrow> Inl (ValidationError ''title'')
      | Inr t \<Rightarrow>
          if t = None \<or> t = Some [] then Inl (ValidationError ''title'')
          else if readyState d \<noteq> 1 then Inl StorageError
          else if genId e \<in> set (map tid (docs d)) then Inl DuplicateKey
          else
            let doc = \<lparr>tid = genId e, title = t, completed = Some False,
                       createdAt = Some (now e), version = 0\<rparr>
            in Inr (d\<lparr>docs := docs d @ [doc]\<rparr>, doc))"

text \<open>
  \<open>Task.findByIdAndUpdate(id, body, {new: true})\<close>: the id is cast first, then the
  update; the first document with that \<open>_id\<close> is rewritten and returned as it is after
  the update, and \<open>null\<close> (\<open>None\<close>) is returned when there is none.
\<close>

definition Task_findByIdAndUpdate ::
  "env \<Rightarrow> db \<Rightarrow> string \<Rightarrow> jobject \<Rightarrow> error + (db \<times> task option)" where
  "Task_findByIdAndUpdate e d i b =
     (case castObjectId i of
        None \<Rightarrow> Inl (CastError ''_id'')
      | Some k \<Rightarrow>
          (case castUpdate e b of
             Inl err \<Rightarrow> Inl err
           | Inr u \<Rightarrow>
               if readyState d \<noteq> 1 then Inl StorageError
               else (case find_doc k (docs d) of
                       None \<Rightarrow> Inr (d, None)
                     | Some t \<Rightarrow>
                         Inr (d\<lparr>docs := replace_doc k (applyUpdate u t) (docs d)\<rparr>,
                              Some (applyUpdate u t)))))"

definition Task_findByIdAndDelete :: "db \<Rightarrow> string \<Rightarrow> error + (db \<times> task option)" where
  "Task_findByIdAndDelete d i =
     (case castObjectId i of
        None \<Rightarrow> Inl (CastError ''_id'')
      | Some k \<Rightarrow>
          if readyState d \<noteq> 1 then Inl StorageError
          else (case find_doc k (docs d) of
                  None \<Rightarrow> Inr (d, None)
                | Some t \<Rightarrow> Inr (d\<lparr>docs := remove_doc k (docs d)\<rparr>, Some t)))"

subsection \<open>Requests and responses\<close>

text \<open>
  \<open>route\<close> is the request path as Express matches it against the four route patterns;
  \<open>ApiTasksId i\<close> carries \<open>req.params.id\<close>. A \<open>get\<close> route also answers HEAD.
  A response body is kept as the value handed to \<open>res.json\<close> or \<open>res.send\<close>:
  \<open>ErrorJson m\<close> is \<open>{error: m}\<close> for a message written in server.js, \<open>ErrMessage e\<close> is
  \<open>{error: err.message}\<close> for the error caught, \<open>MessageJson m\<close> is \<open>{message: m}\<close>,
  \<open>TaskList ts n\<close> is \<open>{tasks: ts, total: n}\<close>.
\<close>

datatype http_method = GET | HEAD | POST | PUT | DELETE | OTHER

datatype route = Health | Metrics | ApiTasks | ApiTasksId string | NoRoute

record request =
  meth :: http_method
  rpath :: route
  body :: jobject

record health_report =
  status :: string
  appVersion :: string
  uptime :: int
  mongoStatus :: string
  hostname :: string
  environment :: string

datatype payload =
    HealthJson health_report
  | Text string
  | TaskList "task list" nat
  | TaskJson task
  | ErrorJson string
  | ErrMessage error
  | MessageJson string

record response =
  statusCode :: nat
  contentType :: string
  payload :: payload

definition json_response :: "nat \<Rightarrow> payload \<Rightarrow> response" where
  "json_response c p = \<lparr>statusCode = c, contentType = ''application/json'', payload = p\<rparr>"

text \<open>\<open>process.env.X || d\<close>: an unset or empty variable gives the default.\<close>

definition or_default :: "string option \<Rightarrow> string \<Rightarrow> string" where
  "or_default v d = (case v of None \<Rightarrow> d | Some s \<Rightarrow> if s = [] then d else s)"

subsection \<open>The handlers (server.js, lines 20-121)\<close>

text \<open>The counting middleware: \<open>requestCount++; next()\<close>.\<close>

definition countRequest :: "state \<Rightarrow> state" where
  "countRequest s = s\<lparr>requestCount := requestCount s + 1\<rparr>"

text \<open>What every \<open>catch\<close> block does: \<open>errorCount++\<close>, then status 500 with the message.\<close>

definition caught :: "state \<Rightarrow> error \<Rightarrow> state \<times> response" where
  "caught s err = (s\<lparr>errorCount := errorCount s + 1\<rparr>, json_response 500 (ErrMessage err))"

definition healthHandler :: "env \<Rightarrow> state \<Rightarrow> state \<times> response" where
  "healthHandler e s =
     (let mongoSt = (if readyState (mongo s) = 1 then ''connected'' else ''disconnected'')
      in (s, json_response 200 (HealthJson
            \<lparr>status = ''healthy'',
             appVersion = or_default (APP_VERSION e) ''1.0.0'',
             uptime = (now e - startTime s) div 1000,
             mongoStatus = mongoSt,
             hostname = or_default (HOSTNAME e) ''local'',
             environment = or_default (NODE_ENV e) ''development''\<rparr>)))"

definition nl :: string where
  "nl = [CHR 0x0A]"

definition metricsText :: "nat \<Rightarrow> nat \<Rightarrow> int \<Rightarrow> nat \<Rightarrow> string" where
  "metricsText reqs errs upMs heap =
     ''# HELP http_requests_total Total HTTP requests'' @ nl @
     ''# TYPE http_requests_total counter'' @ nl @
     ''http_requests_total '' @ show_nat reqs @ nl @ nl @
     ''# HELP http_errors_total Total HTTP errors'' @ nl @
     ''# TYPE http_errors_total counter'' @ nl @
     ''http_errors_total '' @ show_nat errs @ nl @ nl @
     ''# HELP app_uptime_seconds Application uptime'' @ nl @
     ''# TYPE app_uptime_seconds gauge'' @ nl @
     ''app_uptime_seconds '' @ show_millis upMs @ nl @ nl @
     ''# HELP nodejs_process_memory_bytes Process memory usage'' @ nl @
     ''# TYPE nodejs_process_memory_bytes gauge'' @ nl @
     ''nodejs_process_memory_bytes '' @ show_nat heap @ nl"

definition metricsHandler :: "env \<Rightarrow> state \<Rightarrow> state \<times> response" where
  "metricsHandler e s =
     (s, \<lparr>statusCode = 200, contentType = ''text/plain'',
          payload = Text (metricsText (requestCount s) (errorCount s)
                            (now e - startTime s) (heapUsed e))\<rparr>)"

definition listTasks :: "state \<Rightarrow> state \<times> response" where
  "listTasks s =
     (case Task_find_sorted (mongo s) of
        Inl err \<Rightarrow> caught s err
      | Inr tasks \<Rightarrow> (s, json_response 200 (TaskList tasks (length tasks))))"

definition createTask :: "env \<Rightarrow> state \<Rightarrow> jobject \<Rightarrow> state \<times> response" where
  "createTask e s b =
     (if \<not> truthy (jget b ''title'') then (s, json_response 400 (ErrorJson ''Title is required''))
      else (case Task_create e (mongo s) (jget b ''title'') of
              Inl err \<Rightarrow> caught s err
            | Inr (d, t) \<Rightarrow> (s\<lparr>mongo := d\<rparr>, json_response 201 (TaskJson t))))"

definition updateTask :: "env \<Rightarrow> state \<Rightarrow> string \<Rightarrow> jobject \<Rightarrow> state \<times> response" where
  "updateTask e s i b =
     (case Task_findByIdAndUpdate e (mongo s) i b of
        Inl err \<Rightarrow> caught s err
      | Inr (d, None) \<Rightarrow> (s\<lparr>mongo := d\<rparr>, json_response 404 (ErrorJson ''Task not found''))
      | Inr (d, Some t) \<Rightarrow> (s\<lparr>mongo := d\<rparr>, json_response 200 (TaskJson t)))"

definition deleteTask :: "state \<Rightarrow> string \<Rightarrow> state \<times> response" where
  "deleteTask s i =
     (case Task_findByIdAndDelete (mongo s) i of
        Inl err \<Rightarrow> caught s err
      | Inr (d, None) \<Rightarrow> (s\<lparr>mongo := d\<rparr>, json_response 404 (ErrorJson ''Task not found''))
      | Inr (d, Some t) \<Rightarrow> (s\<lparr>mongo := d\<rparr>, json_response 200 (MessageJson ''Task deleted'')))"

definition notFound :: "state \<Rightarrow> state \<times> response" where
  "notFound s = (s, json_response 404 (ErrorJson ''Route not found''))"

text \<open>
  The router tries the routes in the order server.js registers them; a request no route
  takes falls through to the 404 handler.
\<close>

definition is_get :: "http_method \<Rightarrow> bool" where
  "is_get m = (m = GET \<or> m = HEAD)"

definition dispatch :: "env \<Rightarrow> state \<Rightarrow> request \<Rightarrow> state \<times> response" where
  "dispatch e s r =
     (if is_get (meth r) \<and> rpath r = Health then healthHandler e s
      else if is_get (meth r) \<and> rpath r = Metrics then metricsHandler e s
      else if is_get (meth r) \<and> rpath r = ApiTasks then listTasks s
      else if meth r = POST \<and> rpath r = ApiTasks then createTask e s (body r)
      else (case rpath r of
              ApiTasksId i \<Rightarrow>
                if meth r = PUT then updateTask e s i (body r)
                else if meth r = DELETE then deleteTask s i
                else notFound s
            | _ \<Rightarrow> notFound s))"

definition app :: "env \<Rightarrow> state \<Rightarrow> request \<Rightarrow> state \<times> response" where
  "app e s r = dispatch e (countRequest s) r"

subsection \<open>Reading the metrics text\<close>

text \<open>
  The text exposition format is line based: a line starting with \<open>#\<close> is a comment, an
  empty line separates, and any other line is a sample whose first word is the metric's
  name. \<open>metric_block\<close> is one metric as the format documents it: its HELP comment, its
  TYPE comment, its sample.
\<close>

fun text_lines :: "string \<Rightarrow> string list" where
  "text_lines [] = [Nil]"
| "text_lines (c # cs) =
     (if c = CHR 0x0A then Nil # text_lines cs
      else (case text_lines cs of
              [] \<Rightarrow> [c] # []
            | l # ls \<Rightarrow> (c # l) # ls))"

definition sample_lines :: "string \<Rightarrow> string list" where
  "sample_lines txt = filter (\<lambda>l. l \<noteq> [] \<and> hd l \<noteq> CHR ''#'') (text_lines txt)"

definition metric_name :: "string \<Rightarrow> string" where
  "metric_name l = takeWhile (\<lambda>c. c \<noteq> CHR '' '') l"

definition metric_names :: "string \<Rightarrow> string list" where
  "metric_names txt = map metric_name (sample_lines txt)"

definition metric_block :: "string \<Rightarrow> string \<Rightarrow> string \<Rightarrow> string \<Rightarrow> string list" where
  "metric_block name help kind val =
     [''# HELP '' @ name @ '' '' @ help, ''# TYPE '' @ name @ '' '' @ kind, name @ '' '' @ val]"

subsection \<open>Example inputs\<close>

definition ex_env :: env where
  "ex_env = \<lparr>now = 5250, genId = ''00000000000000000000000a'', heapUsed = 4096,
             jsDate = (\<lambda>v. None), APP_VERSION = None, HOSTNAME = None, NODE_ENV = None\<rparr>"

definition ex_empty :: state where
  "ex_empty = \<lparr>requestCount = 0, errorCount = 0, startTime = 1000,
               mongo = \<lparr>readyState = 1, docs = []\<rparr>\<rparr>"

definition ex_tasks :: state where
  "ex_tasks = \<lparr>requestCount = 7, errorCount = 2, startTime = 1000,
     mongo = \<lparr>readyState = 1, docs =
       [\<lparr>tid = ''000000000000000000000001'', title = Some ''Buy milk'',
          completed = Some False, createdAt = Some 1100, version = 0\<rparr>,
        \<lparr>tid = ''000000000000000000000002'', title = Some ''Walk dog'',
          completed = Some True, createdAt = Some 1300, version = 0\<rparr>,
        \<lparr>tid = ''000000000000000000000003'', title = Some ''Pay rent'',
          completed = Some False, createdAt = Some 1200, version = 0\<rparr>]\<rparr>\<rparr>"

definition ex_down :: state where
  "ex_down = \<lparr>requestCount = 0, errorCount = 0, startTime = 1000,
              mongo = \<lparr>readyState = 0, docs = []\<rparr>\<rparr>"

section \<open>Auxiliary facts\<close>

subsection \<open>The collection\<close>

lemma find_doc_Nil [simp]: "find_doc k [] = None"
  by (simp add: find_doc_def)

lemma find_doc_Cons [simp]:
  "find_doc k (t # ts) = (if tid t = k then Some t else find_doc k ts)"
  by (simp add: find_doc_def)

lemma find_doc_tid: "find_doc k ts = Some t \<Longrightarrow> tid t = k \<and> t \<in> set ts"
  by (induction ts) (auto split: if_splits)

lemma find_doc_None: "find_doc k ts = None \<longleftrightarrow> k \<notin> tid ` set ts"
  by (induction ts) auto



lemma tids_replace: "tid t' = k \<Longrightarrow> map tid (replace_doc k t' ts) = map tid ts"
  by (induction ts) auto

lemma set_remove_doc: "set (remove_doc k ts) \<subseteq> set ts"
  by (induction ts) auto

lemma distinct_remove_doc:
  "distinct (map tid ts) \<Longrightarrow> distinct (map tid (remove_doc k ts))"
proof (induction ts)
  case Nil
  then show ?case by simp
next
  case (Cons t ts)
  have "tid t \<notin> tid ` set ts \<Longrightarrow> tid t \<notin> tid ` set (remove_doc k ts)"
    using set_remove_doc [of k ts] by blast
  with Cons show ?case by auto
qed

lemma find_remove_same:
  "distinct (map tid ts) \<Longrightarrow> find_doc k (remove_doc k ts) = None"
  by (induction ts) (auto simp: find_doc_None)

lemma find_remove_other: "j \<noteq> k \<Longrightarrow> find_doc j (remove_doc k ts) = find_doc j ts"
  by (induction ts) auto

lemma mset_remove_doc:
  "find_doc k ts = Some t \<Longrightarrow> mset (remove_doc k ts) = mset ts - {#t#}"
proof (induction ts)
  case Nil
  then show ?case by simp
next
  case (Cons a ts)
  show ?case
  proof (cases "tid a = k")
    case True
    with Cons.prems show ?thesis by simp
  next
    case False
    with Cons.prems have f: "find_doc k ts = Some t" by simp
    then have "t \<in># mset ts" using find_doc_tid by fastforce
    then have "add_mset a (mset ts - {#t#}) = add_mset a (mset ts) - {#t#}"
      by simp
    with False Cons.IH [OF f] show ?thesis by simp
  qed
qed

lemma find_sorted_ready:
  "readyState d = 1 \<Longrightarrow> Task_find_sorted d = Inr (rev (sort_key createdAt (docs d)))"
  by (simp add: Task_find_sorted_def)

subsection \<open>The cast of an update follows the body\<close>








subsection \<open>The router\<close>

lemma status_json_response [simp]: "statusCode (json_response c p) = c"
  by (simp add: json_response_def)

lemma mongo_countRequest [simp]: "mongo (countRequest s) = mongo s"
  by (simp add: countRequest_def)

lemma errorCount_countRequest [simp]: "errorCount (countRequest s) = errorCount s"
  by (simp add: countRequest_def)

lemma app_list:
  "meth r = GET \<Longrightarrow> rpath r = ApiTasks \<Longrightarrow> app e s r = listTasks (countRequest s)"
  by (simp add: app_def dispatch_def is_get_def)

lemma dispatch_counts: "requestCount (fst (dispatch e s r)) = requestCount s"
  by (auto simp: dispatch_def healthHandler_def metricsHandler_def listTasks_def createTask_def
      updateTask_def deleteTask_def notFound_def caught_def Let_def
      split: sum.splits option.splits route.splits prod.splits)

lemma dispatch_errors:
  "errorCount (fst (dispatch e s r)) =
     errorCount s + (if statusCode (snd (dispatch e s r)) = 500 then 1 else 0)"
  by (auto simp: dispatch_def healthHandler_def metricsHandler_def listTasks_def createTask_def
      updateTask_def deleteTask_def notFound_def caught_def Let_def
      split: sum.splits option.splits route.splits prod.splits)

lemma dispatch_status: "statusCode (snd (dispatch e s r)) \<in> {200, 201, 400, 404, 500}"
  by (auto simp: dispatch_def healthHandler_def metricsHandler_def listTasks_def createTask_def
      updateTask_def deleteTask_def notFound_def caught_def Let_def
      split: sum.splits option.splits route.splits prod.splits)

text \<open>
  The database's unique index on \<open>_id\<close> is an invariant of the model: no request makes
  two stored documents share an \<open>_id\<close>.
\<close>

lemma app_keeps_ids_distinct:
  assumes "distinct (map tid (docs (mongo s)))"
  shows "distinct (map tid (docs (mongo (fst (app e s r)))))"
proof -
  have upd: "\<And>i. distinct (map tid (docs (mongo (fst (updateTask e (countRequest s) i (body r))))))"
    using assms
    by (auto simp: updateTask_def Task_findByIdAndUpdate_def caught_def tids_replace
        applyUpdate_def dest: find_doc_tid split: sum.splits option.splits if_splits)
  have del: "\<And>i. distinct (map tid (docs (mongo (fst (deleteTask (countRequest s) i)))))"
    using assms distinct_remove_doc
    by (auto simp: deleteTask_def Task_findByIdAndDelete_def caught_def
        split: sum.splits option.splits if_splits)
  have cre: "distinct (map tid (docs (mongo (fst (createTask e (countRequest s) (body r))))))"
    using assms
    by (auto simp: createTask_def Task_create_def caught_def Let_def
        split: sum.splits option.splits if_splits)
  show ?thesis
    using assms upd del cre
    by (auto simp: app_def dispatch_def healthHandler_def metricsHandler_def listTasks_def
        notFound_def caught_def split: sum.splits route.splits)
qed

text \<open>
  Creation keeps every stored title non-empty: the guard of the POST handler and the
  schema's \<open>required\<close> both stand in the way of an empty one.
\<close>

lemma createTask_keeps_titles:
  assumes "\<forall>t \<in> set (docs (mongo s)). title t \<noteq> None \<and> title t \<noteq> Some []"
  shows "\<forall>t \<in> set (docs (mongo (fst (createTask e s b)))). title t \<noteq> None \<and> title t \<noteq> Some []"
  using assms
  by (auto simp: createTask_def Task_create_def caught_def Let_def
      split: sum.splits option.splits if_splits)

subsection \<open>Lines of the metrics text\<close>

lemma text_lines_line:
  "CHR 0x0A \<notin> set a \<Longrightarrow> text_lines (a @ CHR 0x0A # rest) = a # text_lines rest"
  by (induction a) (auto split: list.splits)

lemma digit_chars: "digit d \<in> set ''0123456789''"
  unfolding digit_def by (rule nth_mem) simp

lemma show_nat_chars: "set (show_nat n) \<subseteq> set ''0123456789''"
proof (induction n rule: show_nat.induct)
  case (1 n)
  show ?case
  proof (cases "n < 10")
    case True
    then show ?thesis using digit_chars [of n] by (subst show_nat.simps) simp
  next
    case False
    then show ?thesis
      using 1 digit_chars [of "n mod 10"] by (subst show_nat.simps) simp
  qed
qed

lemma show_nat_no_nl: "CHR 0x0A \<notin> set (show_nat n)"
  using show_nat_chars [of n] by auto

lemma frac3_chars: "set (frac3 m) \<subseteq> insert (CHR ''.'') (set ''0123456789'')"
proof -
  let ?ds = "[digit (m div 100), digit (m div 10), digit m]"
  have "set (rev (dropWhile (\<lambda>c. c = CHR ''0'') (rev ?ds))) \<subseteq> set ?ds"
    using set_dropWhileD [of _ "\<lambda>c. c = CHR ''0''" "rev ?ds"] by auto
  moreover have "set ?ds \<subseteq> set ''0123456789''"
    using digit_chars [of "m div 100"] digit_chars [of "m div 10"] digit_chars [of m] by simp
  ultimately show ?thesis
    unfolding frac3_def Let_def by (auto split: if_splits)
qed

lemma show_millis_no_nl: "CHR 0x0A \<notin> set (show_millis d)"
  using show_nat_chars [of "nat \<bar>d\<bar> div 1000"] frac3_chars [of "nat \<bar>d\<bar> mod 1000"]
  unfolding show_millis_def Let_def by (auto split: if_splits)

lemma metrics_lines:
  "text_lines (metricsText reqs errs up heap) =
     metric_block ''http_requests_total'' ''Total HTTP requests'' ''counter'' (show_nat reqs)
     @ [Nil] @
     metric_block ''http_errors_total'' ''Total HTTP errors'' ''counter'' (show_nat errs)
     @ [Nil] @
     metric_block ''app_uptime_seconds'' ''Application uptime'' ''gauge'' (show_millis up)
     @ [Nil] @
     metric_block ''nodejs_process_memory_bytes'' ''Process memory usage'' ''gauge''
       (show_nat heap)
     @ [Nil]"
  unfolding metricsText_def metric_block_def nl_def
  by (simp add: text_lines_line show_nat_no_nl show_millis_no_nl)

subsection \<open>An example of trimming\<close>


section \<open>The claims\<close>

subsection \<open>C1: every persisted task has a non-empty title\<close>

text \<open>
  C1 says that every persisted task has a non-empty title, after a creation and after
  any update. Creation keeps it (\<open>createTask_keeps_titles\<close>). The PUT handler does
  not: on the stored task \<open>000000000000000000000001\<close>, titled \<open>Buy milk\<close>, the body
  \<open>{"title": ""}\<close> is answered with status 200 and the task is stored and returned with
  the empty title.
\<close>

theorem put_empty_title_persisted:
  "snd (app ex_env ex_tasks
         \<lparr>meth = PUT, rpath = ApiTasksId ''000000000000000000000001'',
          body = [(''title'', JStr [])]\<rparr>)
     = json_response 200 (TaskJson
         \<lparr>tid = ''000000000000000000000001'', title = Some [],
          completed = Some False, createdAt = Some 1100, version = 0\<rparr>)
   \<and> find_doc ''000000000000000000000001''
         (docs (mongo (fst (app ex_env ex_tasks
            \<lparr>meth = PUT, rpath = ApiTasksId ''000000000000000000000001'',
             body = [(''title'', JStr [])]\<rparr>))))
     = Some \<lparr>tid = ''000000000000000000000001'', title = Some [],
          completed = Some False, createdAt = Some 1100, version = 0\<rparr>"
  by (simp add: app_def dispatch_def is_get_def updateTask_def Task_findByIdAndUpdate_def
      castObjectId_def is_hex_def lower_hex_def uninterpreted_key_def castTitle_def trim_def
      applyUpdate_def no_update_def countRequest_def ex_tasks_def)

subsection \<open>C2: the two counters\<close>

text \<open>
  C2, as amended: every request that reaches the counting middleware has \<open>requestCount\<close>
  incremented exactly once, before it is dispatched (the router runs on the state the
  middleware returns, and no handler touches \<open>requestCount\<close>); \<open>errorCount\<close> is
  incremented, once, exactly when the response has status 500, the status of the
  \<open>catch\<close> blocks; a response with status 400 or 404 leaves \<open>errorCount\<close> as it was.
\<close>

theorem counters_per_request:
  "app e s r = dispatch e (countRequest s) r
   \<and> requestCount (countRequest s) = requestCount s + 1
   \<and> requestCount (fst (app e s r)) = requestCount s + 1
   \<and> errorCount (fst (app e s r)) =
       errorCount s + (if statusCode (snd (app e s r)) = 500 then 1 else 0)
   \<and> statusCode (snd (app e s r)) \<in> {200, 201, 400, 404, 500}"
  using dispatch_counts [of e "countRequest s" r] dispatch_errors [of e "countRequest s" r]
    dispatch_status [of e "countRequest s" r]
  by (simp add: app_def countRequest_def)

text \<open>
  C2 at a request that fails in the database: listing while the connection is down is
  answered 500, with both counters incremented.
\<close>

theorem counters_per_request_witness:
  "statusCode (snd (app ex_env ex_down \<lparr>meth = GET, rpath = ApiTasks, body = []\<rparr>)) = 500
   \<and> requestCount (fst (app ex_env ex_down \<lparr>meth = GET, rpath = ApiTasks, body = []\<rparr>))
       = requestCount ex_down + 1
   \<and> errorCount (fst (app ex_env ex_down \<lparr>meth = GET, rpath = ApiTasks, body = []\<rparr>))
       = errorCount ex_down + 1"
proof -
  have st: "statusCode (snd (app ex_env ex_down \<lparr>meth = GET, rpath = ApiTasks, body = []\<rparr>)) = 500"
    by (simp add: app_list listTasks_def Task_find_sorted_def caught_def ex_down_def)
  from counters_per_request [of ex_env ex_down "\<lparr>meth = GET, rpath = ApiTasks, body = []\<rparr>"]
  have "requestCount (fst (app ex_env ex_down \<lparr>meth = GET, rpath = ApiTasks, body = []\<rparr>))
          = requestCount ex_down + 1"
    and "errorCount (fst (app ex_env ex_down \<lparr>meth = GET, rpath = ApiTasks, body = []\<rparr>))
          = errorCount ex_down
            + (if statusCode (snd (app ex_env ex_down
                 \<lparr>meth = GET, rpath = ApiTasks, body = []\<rparr>)) = 500 then 1 else 0)"
    by blast+
  with st show ?thesis by simp
qed

text \<open>
  C2 as stated fails: a POST without a title is answered 400, a failure, and
  \<open>errorCount\<close> is not incremented.
\<close>

theorem errorCount_400_counterexample:
  "statusCode (snd (app ex_env ex_empty \<lparr>meth = POST, rpath = ApiTasks, body = []\<rparr>)) = 400
   \<and> errorCount (fst (app ex_env ex_empty \<lparr>meth = POST, rpath = ApiTasks, body = []\<rparr>))
       \<noteq> errorCount ex_empty + 1"
  by (simp add: app_def dispatch_def is_get_def createTask_def jget_def)

subsection \<open>C3: a POST without a title\<close>

text \<open>
  C3: a POST to /api/tasks whose body has no \<open>title\<close>, or the empty string as
  \<open>title\<close>, is answered 400 with \<open>{error: "Title is required"}\<close>, and the database is
  left as it was.
\<close>

theorem post_missing_title_400:
  assumes "meth r = POST" and "rpath r = ApiTasks"
    and "jget (body r) ''title'' = None \<or> jget (body r) ''title'' = Some (JStr [])"
  shows "snd (app e s r) = json_response 400 (ErrorJson ''Title is required'')
         \<and> mongo (fst (app e s r)) = mongo s"
  using assms
  by (auto simp: app_def dispatch_def is_get_def createTask_def)

theorem post_missing_title_400_witness:
  "jget [(''title'', JStr [])] ''title'' = Some (JStr [])
   \<and> snd (app ex_env ex_tasks \<lparr>meth = POST, rpath = ApiTasks, body = [(''title'', JStr [])]\<rparr>)
       = json_response 400 (ErrorJson ''Title is required'')
   \<and> mongo (fst (app ex_env ex_tasks
        \<lparr>meth = POST, rpath = ApiTasks, body = [(''title'', JStr [])]\<rparr>)) = mongo ex_tasks"
proof -
  have t: "jget [(''title'', JStr [])] ''title'' = Some (JStr [])"
    by (simp add: jget_def)
  show ?thesis
    using t post_missing_title_400
      [where r = "\<lparr>meth = POST, rpath = ApiTasks, body = [(''title'', JStr [])]\<rparr>"
         and e = ex_env and s = ex_tasks]
    by simp
qed

subsection \<open>C4: the metrics text\<close>

text \<open>
  C4, as amended: GET /metrics is answered 200 with plain text of four metrics, each a
  HELP comment, a TYPE comment and a sample, separated by empty lines: the counters
  \<open>http_requests_total\<close> and \<open>http_errors_total\<close>, the gauge \<open>app_uptime_seconds\<close>
  (milliseconds since the start divided by 1000, so fractional) and the gauge
  \<open>nodejs_process_memory_bytes\<close> (the heap in use). The fourth metric's name is
  \<open>nodejs_process_memory_bytes\<close>.
\<close>

theorem metrics_text_format:
  assumes "meth r = GET" and "rpath r = Metrics"
  shows "\<exists>txt. snd (app e s r)
             = \<lparr>statusCode = 200, contentType = ''text/plain'', payload = Text txt\<rparr>
     \<and> text_lines txt =
         metric_block ''http_requests_total'' ''Total HTTP requests'' ''counter''
           (show_nat (requestCount s + 1))
         @ [Nil] @
         metric_block ''http_errors_total'' ''Total HTTP errors'' ''counter''
           (show_nat (errorCount s))
         @ [Nil] @
         metric_block ''app_uptime_seconds'' ''Application uptime'' ''gauge''
           (show_millis (now e - startTime s))
         @ [Nil] @
         metric_block ''nodejs_process_memory_bytes'' ''Process memory usage'' ''gauge''
           (show_nat (heapUsed e))
         @ [Nil]
     \<and> metric_names txt = [''http_requests_total'', ''http_errors_total'',
          ''app_uptime_seconds'', ''nodejs_process_memory_bytes'']"
proof -
  let ?txt = "metricsText (requestCount s + 1) (errorCount s) (now e - startTime s) (heapUsed e)"
  have run: "snd (app e s r)
      = \<lparr>statusCode = 200, contentType = ''text/plain'', payload = Text ?txt\<rparr>"
    using assms by (simp add: app_def dispatch_def is_get_def metricsHandler_def countRequest_def)
  have names: "metric_names ?txt = [''http_requests_total'', ''http_errors_total'',
          ''app_uptime_seconds'', ''nodejs_process_memory_bytes'']"
    unfolding metric_names_def sample_lines_def metrics_lines
    by (simp add: metric_block_def metric_name_def)
  show ?thesis
    using run names metrics_lines by blast
qed

theorem metrics_text_format_witness:
  "\<exists>txt. snd (app ex_env ex_empty \<lparr>meth = GET, rpath = Metrics, body = []\<rparr>)
             = \<lparr>statusCode = 200, contentType = ''text/plain'', payload = Text txt\<rparr>
     \<and> metric_names txt = [''http_requests_total'', ''http_errors_total'',
          ''app_uptime_seconds'', ''nodejs_process_memory_bytes'']"
  using metrics_text_format
    [where r = "\<lparr>meth = GET, rpath = Metrics, body = []\<rparr>" and e = ex_env and s = ex_empty]
  by auto

text \<open>
  C4 as stated fails: the text for one request, no error, 4250 milliseconds of uptime
  and 4096 bytes of heap has no metric named \<open>process_memory_bytes\<close>.
\<close>

theorem metrics_name_counterexample:
  "snd (app ex_env ex_empty \<lparr>meth = GET, rpath = Metrics, body = []\<rparr>)
     = \<lparr>statusCode = 200, contentType = ''text/plain'',
        payload = Text (metricsText 1 0 4250 4096)\<rparr>
   \<and> metric_names (metricsText 1 0 4250 4096)
       \<noteq> [''http_requests_total'', ''http_errors_total'', ''app_uptime_seconds'',
           ''process_memory_bytes'']"
  by (simp add: app_def dispatch_def is_get_def metricsHandler_def countRequest_def ex_empty_def
      ex_env_def metric_names_def sample_lines_def metrics_lines metric_block_def metric_name_def)

subsection \<open>C5: listing the tasks\<close>



subsection \<open>C6: updating a task\<close>




subsection \<open>C7: creating a task\<close>




subsection \<open>C8: the health report\<close>

text \<open>
  C8: whatever the state of the database connection, GET /health is answered 200 with
  \<open>status\<close> \<open>healthy\<close>; it takes no failure path (\<open>errorCount\<close> and the database are
  as before); and \<open>mongo\<close> is \<open>connected\<close> exactly when the connection is ready
  (\<open>readyState\<close> 1) and \<open>disconnected\<close> exactly when it is not.
\<close>

theorem health_always_200:
  assumes "meth r = GET" and "rpath r = Health"
  shows "\<exists>h. snd (app e s r) = json_response 200 (HealthJson h)
           \<and> status h = ''healthy''
           \<and> (mongoStatus h = ''connected'') = (readyState (mongo s) = 1)
           \<and> (mongoStatus h = ''disconnected'') = (readyState (mongo s) \<noteq> 1)
           \<and> errorCount (fst (app e s r)) = errorCount s
           \<and> mongo (fst (app e s r)) = mongo s"
proof -
  let ?h = "\<lambda>m. \<lparr>status = ''healthy'',
             appVersion = or_default (APP_VERSION e) ''1.0.0'',
             uptime = (now e - startTime (countRequest s)) div 1000,
             mongoStatus = m,
             hostname = or_default (HOSTNAME e) ''local'',
             environment = or_default (NODE_ENV e) ''development''\<rparr>"
  have run: "app e s r = healthHandler e (countRequest s)"
    using assms by (simp add: app_def dispatch_def is_get_def)
  show ?thesis
  proof (cases "readyState (mongo s) = 1")
    case True
    then show ?thesis
      unfolding run
      by (intro exI [of _ "?h ''connected''"]) (simp add: healthHandler_def countRequest_def)
  next
    case False
    then show ?thesis
      unfolding run
      by (intro exI [of _ "?h ''disconnected''"]) (simp add: healthHandler_def countRequest_def)
  qed
qed

text \<open>C8 with the database down.\<close>

theorem health_always_200_witness:
  "readyState (mongo ex_down) \<noteq> 1
   \<and> (\<exists>h. snd (app ex_env ex_down \<lparr>meth = GET, rpath = Health, body = []\<rparr>)
             = json_response 200 (HealthJson h)
          \<and> status h = ''healthy'' \<and> mongoStatus h = ''disconnected'')"
proof -
  let ?r = "\<lparr>meth = GET, rpath = Health, body = []\<rparr>"
  have m: "meth ?r = GET" and p: "rpath ?r = Health"
    by simp_all
  have dn: "readyState (mongo ex_down) \<noteq> 1"
    by (simp add: ex_down_def)
  from health_always_200 [OF m p, of ex_env ex_down]
  obtain h where a: "snd (app ex_env ex_down ?r) = json_response 200 (HealthJson h)"
    and b: "status h = ''healthy''"
    and c: "(mongoStatus h = ''disconnected'') = (readyState (mongo ex_down) \<noteq> 1)"
    by (elim exE conjE) (rule that, assumption+)
  from c dn have "mongoStatus h = ''disconnected''"
    by (simp only: simp_thms)
  with a b dn show ?thesis
    by (intro conjI exI [of _ h])
qed

subsection \<open>C9: deleting a task\<close>

text \<open>
  C9, as amended: for every id that is a well-formed ObjectId, on a reachable database
  (whose documents have distinct ids, as its index on \<open>_id\<close> keeps them),
  DELETE /api/tasks/:id is answered 404 with \<open>{error: "Task not found"}\<close> when no task
  has that id, the database unchanged; otherwise it is answered 200 with
  \<open>{message: "Task deleted"}\<close>, that record alone is removed, and a listing that
  follows holds the remaining tasks and none with that id.
\<close>

theorem delete_valid_id:
  assumes "meth r = DELETE" and "rpath r = ApiTasksId i"
    and "castObjectId i = Some k" and "readyState (mongo s) = 1"
    and "distinct (map tid (docs (mongo s)))"
  shows "(find_doc k (docs (mongo s)) = None \<longrightarrow>
            snd (app e s r) = json_response 404 (ErrorJson ''Task not found'')
            \<and> mongo (fst (app e s r)) = mongo s)
       \<and> (\<forall>t. find_doc k (docs (mongo s)) = Some t \<longrightarrow>
            snd (app e s r) = json_response 200 (MessageJson ''Task deleted'')
            \<and> mset (docs (mongo (fst (app e s r)))) = mset (docs (mongo s)) - {#t#}
            \<and> find_doc k (docs (mongo (fst (app e s r)))) = None
            \<and> (\<forall>j. j \<noteq> k \<longrightarrow>
                  find_doc j (docs (mongo (fst (app e s r)))) = find_doc j (docs (mongo s)))
            \<and> (\<exists>ts. snd (app e' (fst (app e s r)) \<lparr>meth = GET, rpath = ApiTasks, body = b\<rparr>)
                        = json_response 200 (TaskList ts (length ts))
                  \<and> k \<notin> tid ` set ts
                  \<and> mset ts = mset (docs (mongo s)) - {#t#}))"
proof (intro conjI impI allI)
  assume "find_doc k (docs (mongo s)) = None"
  then show "snd (app e s r) = json_response 404 (ErrorJson ''Task not found'')"
    and "mongo (fst (app e s r)) = mongo s"
    using assms
    by (simp_all add: app_def dispatch_def is_get_def deleteTask_def Task_findByIdAndDelete_def)
next
  fix t
  assume f: "find_doc k (docs (mongo s)) = Some t"
  let ?s' = "fst (app e s r)"
  have run: "app e s r =
      ((countRequest s)\<lparr>mongo := (mongo s)\<lparr>docs := remove_doc k (docs (mongo s))\<rparr>\<rparr>,
       json_response 200 (MessageJson ''Task deleted''))"
    using assms f
    by (simp add: app_def dispatch_def is_get_def deleteTask_def Task_findByIdAndDelete_def)
  show "snd (app e s r) = json_response 200 (MessageJson ''Task deleted'')"
    by (simp add: run)
  show ms: "mset (docs (mongo ?s')) = mset (docs (mongo s)) - {#t#}"
    using mset_remove_doc [OF f] by (simp add: run)
  show gone: "find_doc k (docs (mongo ?s')) = None"
    using find_remove_same [OF assms(5)] by (simp add: run)
  show "\<And>j. j \<noteq> k \<Longrightarrow> find_doc j (docs (mongo ?s')) = find_doc j (docs (mongo s))"
    using find_remove_other by (simp add: run)
  have ready: "readyState (mongo ?s') = 1"
    using assms(4) by (simp add: run)
  let ?ts = "rev (sort_key createdAt (docs (mongo ?s')))"
  have "snd (app e' ?s' \<lparr>meth = GET, rpath = ApiTasks, body = b\<rparr>)
          = json_response 200 (TaskList ?ts (length ?ts))"
    using ready by (simp add: app_list listTasks_def find_sorted_ready)
  moreover have "k \<notin> tid ` set ?ts"
    using gone by (simp add: find_doc_None)
  moreover have "mset ?ts = mset (docs (mongo s)) - {#t#}"
    using ms by simp
  ultimately show "\<exists>ts. snd (app e' ?s' \<lparr>meth = GET, rpath = ApiTasks, body = b\<rparr>)
                        = json_response 200 (TaskList ts (length ts))
                  \<and> k \<notin> tid ` set ts
                  \<and> mset ts = mset (docs (mongo s)) - {#t#}"
    by (intro exI [of _ ?ts] conjI)
qed

text \<open>C9 on the example tasks: deleting task \<open>000000000000000000000002\<close>.\<close>

theorem delete_valid_id_witness:
  "castObjectId ''000000000000000000000002'' = Some ''000000000000000000000002''
   \<and> distinct (map tid (docs (mongo ex_tasks)))
   \<and> snd (app ex_env ex_tasks
        \<lparr>meth = DELETE, rpath = ApiTasksId ''000000000000000000000002'', body = []\<rparr>)
       = json_response 200 (MessageJson ''Task deleted'')
   \<and> find_doc ''000000000000000000000002'' (docs (mongo (fst (app ex_env ex_tasks
        \<lparr>meth = DELETE, rpath = ApiTasksId ''000000000000000000000002'', body = []\<rparr>))))
       = None"
proof -
  let ?r = "\<lparr>meth = DELETE, rpath = ApiTasksId ''000000000000000000000002'', body = []\<rparr>"
  let ?t = "\<lparr>tid = ''000000000000000000000002'', title = Some ''Walk dog'',
          completed = Some True, createdAt = Some 1300, version = 0\<rparr>"
  have m: "meth ?r = DELETE" and p: "rpath ?r = ApiTasksId ''000000000000000000000002''"
    by simp_all
  have c: "castObjectId ''000000000000000000000002'' = Some ''000000000000000000000002''"
    by (simp add: castObjectId_def is_hex_def lower_hex_def)
  have up: "readyState (mongo ex_tasks) = 1"
    by (simp add: ex_tasks_def)
  have d: "distinct (map tid (docs (mongo ex_tasks)))"
    by (simp add: ex_tasks_def)
  have f: "find_doc ''000000000000000000000002'' (docs (mongo ex_tasks)) = Some ?t"
    by (simp add: ex_tasks_def)
  note h = delete_valid_id [OF m p c up d, of ex_env ex_env "[]", THEN conjunct2,
      rule_format, OF f]
  have a: "snd (app ex_env ex_tasks ?r) = json_response 200 (MessageJson ''Task deleted'')"
    by (rule h [THEN conjunct1])
  have g: "find_doc ''000000000000000000000002''
      (docs (mongo (fst (app ex_env ex_tasks ?r)))) = None"
    by (rule h [THEN conjunct2, THEN conjunct2, THEN conjunct1])
  from c d a g show ?thesis
    by (intro conjI)
qed

text \<open>
  C9 as stated fails at an id that is no ObjectId: no task has the id \<open>abc\<close>, and the
  answer to DELETE /api/tasks/abc is 500, not 404.
\<close>

theorem delete_malformed_id_counterexample:
  "find_doc ''abc'' (docs (mongo ex_tasks)) = None
   \<and> statusCode (snd (app ex_env ex_tasks
        \<lparr>meth = DELETE, rpath = ApiTasksId ''abc'', body = []\<rparr>)) = 500
   \<and> snd (app ex_env ex_tasks \<lparr>meth = DELETE, rpath = ApiTasksId ''abc'', body = []\<rparr>)
       \<noteq> json_response 404 (ErrorJson ''Task not found'')"
  by (simp add: app_def dispatch_def is_get_def deleteTask_def Task_findByIdAndDelete_def
      castObjectId_def caught_def json_response_def ex_tasks_def)

subsection \<open>C10: an id that is no ObjectId\<close>

text \<open>
  C10: a PUT or DELETE on /api/tasks/:id whose id is not a well-formed ObjectId is
  answered 500 with the message of the cast error on \<open>_id\<close>, not 404; the database is
  unchanged, whatever the body and whatever the state of the connection, and
  \<open>errorCount\<close> is incremented.
\<close>

theorem malformed_id_500:
  assumes "rpath r = ApiTasksId i" and "meth r = PUT \<or> meth r = DELETE"
    and "castObjectId i = None"
  shows "snd (app e s r) = json_response 500 (ErrMessage (CastError ''_id''))
         \<and> mongo (fst (app e s r)) = mongo s
         \<and> errorCount (fst (app e s r)) = errorCount s + 1"
  using assms
  by (auto simp: app_def dispatch_def is_get_def updateTask_def deleteTask_def
      Task_findByIdAndUpdate_def Task_findByIdAndDelete_def caught_def countRequest_def)

text \<open>C10 on DELETE /api/tasks/not-an-id.\<close>

theorem malformed_id_500_witness:
  "castObjectId ''not-an-id'' = None
   \<and> snd (app ex_env ex_tasks
        \<lparr>meth = DELETE, rpath = ApiTasksId ''not-an-id'', body = []\<rparr>)
       = json_response 500 (ErrMessage (CastError ''_id''))
   \<and> mongo (fst (app ex_env ex_tasks
        \<lparr>meth = DELETE, rpath = ApiTasksId ''not-an-id'', body = []\<rparr>)) = mongo ex_tasks"
proof -
  let ?r = "\<lparr>meth = DELETE, rpath = ApiTasksId ''not-an-id'', body = []\<rparr>"
  have p: "rpath ?r = ApiTasksId ''not-an-id''" and m: "meth ?r = PUT \<or> meth ?r = DELETE"
    by simp_all
  have c: "castObjectId ''not-an-id'' = None"
    by (simp add: castObjectId_def)
  show ?thesis
    using c malformed_id_500 [OF p m c, of ex_env ex_tasks] by (intro conjI) simp_all
qed

end
